theory Spec2Isabelle
  imports Complex_Main "HOL-Library.AList"
begin

section \<open>Python values\<close>

text \<open>
  The cache holds whatever \<^verbatim>\<open>json.load\<close> returns, typed \<^verbatim>\<open>Dict[str, Any]\<close> in the
  source: a value of this datatype. \<open>JNull\<close> is Python's \<^verbatim>\<open>None\<close>, also where a function
  of the source returns \<^verbatim>\<open>None\<close> itself. An object is an association list in insertion
  order (a Python \<^verbatim>\<open>dict\<close>; \<^verbatim>\<open>json.load\<close> builds it with distinct keys). A JSON
  integer is a Python \<^verbatim>\<open>int\<close>, of any size; any other JSON number is a \<^verbatim>\<open>float\<close>. A
  string is its sequence of bytes in UTF-8, on which equality and the substring test
  agree with Python's on code points.

  A \<^verbatim>\<open>float\<close> is a finite value, an infinity (\<open>Inf True\<close> is the positive one) or
  not-a-number. The range of the finite values is modelled, the rounding of the mantissa
  and the sign of zero are not: \<open>Finite x\<close> stands for the float nearest to \<open>x\<close>.
\<close>

datatype pyfloat = Finite real | Inf bool | NaN

datatype json =
    JNull
  | JBool bool
  | JInt int
  | JFloat pyfloat
  | JStr string
  | JArr "json list"
  | JObj "(string \<times> json) list"

datatype pyexn = KeyError | TypeError | AttributeError | IndexError | OverflowError

text \<open>Truth value of a Python object, as \<^verbatim>\<open>if data:\<close> and \<^verbatim>\<open>not data\<close> test it.\<close>

fun py_truthy :: "json \<Rightarrow> bool" where
  "py_truthy JNull = False"
| "py_truthy (JBool b) = b"
| "py_truthy (JInt n) = (n \<noteq> 0)"
| "py_truthy (JFloat f) = (f \<noteq> Finite 0)"
| "py_truthy (JStr s) = (s \<noteq> [])"
| "py_truthy (JArr xs) = (xs \<noteq> [])"
| "py_truthy (JObj kvs) = (kvs \<noteq> [])"

text \<open>\<^verbatim>\<open>needle in haystack\<close> on two strings: a contiguous substring.\<close>

fun py_str_contains :: "string \<Rightarrow> string \<Rightarrow> bool" where
  "py_str_contains [] needle = (needle = [])"
| "py_str_contains (c # cs) needle =
     (take (length needle) (c # cs) = needle \<or> py_str_contains cs needle)"

text \<open>\<^verbatim>\<open>key in container\<close> for a string key: the keys of a dict, the elements of a list,
  the substrings of a string; anything else is not iterable.\<close>

fun py_contains :: "json \<Rightarrow> string \<Rightarrow> pyexn + bool" where
  "py_contains (JObj kvs) k = Inr (map_of kvs k \<noteq> None)"
| "py_contains (JArr xs) k = Inr (JStr k \<in> set xs)"
| "py_contains (JStr s) k = Inr (py_str_contains s k)"
| "py_contains JNull k = Inl TypeError"
| "py_contains (JBool b) k = Inl TypeError"
| "py_contains (JInt n) k = Inl TypeError"
| "py_contains (JFloat f) k = Inl TypeError"

text \<open>\<^verbatim>\<open>container[key]\<close> for a string key: only a dict can be indexed by a string.\<close>

fun py_getitem :: "json \<Rightarrow> string \<Rightarrow> pyexn + json" where
  "py_getitem (JObj kvs) k = (case map_of kvs k of None \<Rightarrow> Inl KeyError | Some v \<Rightarrow> Inr v)"
| "py_getitem JNull k = Inl TypeError"
| "py_getitem (JBool b) k = Inl TypeError"
| "py_getitem (JInt n) k = Inl TypeError"
| "py_getitem (JFloat f) k = Inl TypeError"
| "py_getitem (JStr s) k = Inl TypeError"
| "py_getitem (JArr xs) k = Inl TypeError"

text \<open>\<^verbatim>\<open>list(d.keys())\<close> and \<^verbatim>\<open>d.get(key)\<close>: methods of a dict only.\<close>

fun py_keys :: "json \<Rightarrow> pyexn + string list" where
  "py_keys (JObj kvs) = Inr (map fst kvs)"
| "py_keys JNull = Inl AttributeError"
| "py_keys (JBool b) = Inl AttributeError"
| "py_keys (JInt n) = Inl AttributeError"
| "py_keys (JFloat f) = Inl AttributeError"
| "py_keys (JStr s) = Inl AttributeError"
| "py_keys (JArr xs) = Inl AttributeError"

fun py_get :: "json \<Rightarrow> string \<Rightarrow> pyexn + json" where
  "py_get (JObj kvs) k = Inr (case map_of kvs k of None \<Rightarrow> JNull | Some v \<Rightarrow> v)"
| "py_get JNull k = Inl AttributeError"
| "py_get (JBool b) k = Inl AttributeError"
| "py_get (JInt n) k = Inl AttributeError"
| "py_get (JFloat f) k = Inl AttributeError"
| "py_get (JStr s) k = Inl AttributeError"
| "py_get (JArr xs) k = Inl AttributeError"

text \<open>
  The least magnitude that no finite float reaches: a real of at least this magnitude
  rounds to an infinity, and an \<^verbatim>\<open>int\<close> of at least this magnitude has no float
  (\<^verbatim>\<open>OverflowError\<close>: int too large to convert to float). It lies half a unit in the last
  place above the largest float \<open>2 ^ 1024 - 2 ^ 971\<close>.
\<close>

definition float_limit :: int where
  "float_limit = 2 ^ 1024 - 2 ^ 970"

definition in_float_range :: "int \<Rightarrow> bool" where
  "in_float_range n = (- float_limit < n \<and> n < float_limit)"

definition round_float :: "real \<Rightarrow> pyfloat" where
  "round_float x =
     (if real_of_int float_limit \<le> x then Inf True
      else if x \<le> - real_of_int float_limit then Inf False
      else Finite x)"

definition int_to_float :: "int \<Rightarrow> pyexn + pyfloat" where
  "int_to_float n = (if in_float_range n then Inr (Finite (real_of_int n)) else Inl OverflowError)"

text \<open>The product of two floats: it overflows to an infinity and never raises.\<close>

fun float_mul :: "pyfloat \<Rightarrow> pyfloat \<Rightarrow> pyfloat" where
  "float_mul (Finite x) (Finite y) = round_float (x * y)"
| "float_mul (Finite x) (Inf s) = (if x = 0 then NaN else Inf (s = (0 < x)))"
| "float_mul (Inf s) (Finite y) = (if y = 0 then NaN else Inf (s = (0 < y)))"
| "float_mul (Inf s) (Inf s') = Inf (s = s')"
| "float_mul NaN y = NaN"
| "float_mul x NaN = NaN"

text \<open>The float that \<^verbatim>\<open>amount * rate\<close> takes for its right operand when \<open>amount\<close> is a
  float: a float itself, the float of an \<^verbatim>\<open>int\<close> (a \<^verbatim>\<open>bool\<close> is the \<^verbatim>\<open>int\<close> 0 or 1) if it
  has one; anything else is no number and raises \<^verbatim>\<open>TypeError\<close>.\<close>

fun as_float :: "json \<Rightarrow> pyexn + pyfloat" where
  "as_float (JFloat f) = Inr f"
| "as_float (JInt n) = int_to_float n"
| "as_float (JBool b) = Inr (Finite (if b then 1 else 0))"
| "as_float JNull = Inl TypeError"
| "as_float (JStr s) = Inl TypeError"
| "as_float (JArr xs) = Inl TypeError"
| "as_float (JObj kvs) = Inl TypeError"

definition py_mul :: "pyfloat \<Rightarrow> json \<Rightarrow> pyexn + json" where
  "py_mul a v = (case as_float v of Inl e \<Rightarrow> Inl e | Inr f \<Rightarrow> Inr (JFloat (float_mul a f)))"

text \<open>\<^verbatim>\<open>timedelta(hours=h)\<close> in microseconds; the constructor raises \<^verbatim>\<open>OverflowError\<close>
  when the number of days leaves its range.\<close>

definition timedelta_hours :: "int \<Rightarrow> pyexn + int" where
  "timedelta_hours h =
     (if - 999999999 \<le> h div 24 \<and> h div 24 \<le> 999999999
      then Inr (h * 3600000000) else Inl OverflowError)"

section \<open>The world outside the program\<close>

text \<open>
  What a file holds, as far as \<^verbatim>\<open>json.load\<close> tells: \<open>Document v\<close> is a text that parses to
  \<open>v\<close>; \<open>Partial d\<close> is a proper prefix of the serialisation of the dict \<open>d\<close>, left by a
  write that stopped part-way (never a valid document: its braces are not closed);
  \<open>Corrupt\<close> is anything else that opening, decoding or parsing rejects.
\<close>

datatype file_text = Document json | Partial "(string \<times> json) list" | Corrupt

record cache_file =
  content :: file_text
  mtime :: int

text \<open>What \<^verbatim>\<open>requests.get\<close> does for a base currency: it raises, or answers with a
  status code and a body (\<open>None\<close> when \<^verbatim>\<open>response.json()\<close> raises).\<close>

datatype reply = RequestException | Response int "json option"

text \<open>What the file system does to a write of a path: nothing, a failing \<^verbatim>\<open>open\<close>, or an
  error after the file has been opened (and so truncated).\<close>

datatype fault = NoFault | OpenFails | WriteFails

datatype io_event = FileStat string | FileRead string | FileWrite string | HttpGet string

text \<open>
  The state the program runs in: the files with their time of last change and the
  local clock (both as \<^verbatim>\<open>datetime\<close> reads them, in microseconds), the rate provider, the
  faults of the file system, and the input and output done so far. \<^verbatim>\<open>print\<close> is not
  modelled.
\<close>

record world =
  files :: "string \<Rightarrow> cache_file option"
  clock :: int
  net :: "string \<Rightarrow> reply"
  write_fault :: "string \<Rightarrow> fault"
  trace :: "io_event list"

definition note_io :: "io_event \<Rightarrow> world \<Rightarrow> world" where
  "note_io e w = w\<lparr>trace := trace w @ [e]\<rparr>"

section \<open>api\_client.py\<close>

definition FAVORITE_CURRENCIES :: "string list" where
  "FAVORITE_CURRENCIES = [''USD'', ''EUR'', ''GBP'', ''RUB'']"

definition get_currency_rate :: "string \<Rightarrow> world \<Rightarrow> json \<times> world" where
  "get_currency_rate currency_code w =
     ((case net w currency_code of
         RequestException \<Rightarrow> JNull
       | Response status_code body \<Rightarrow>
           if status_code \<noteq> 200 then JNull
           else (case body of
                   None \<Rightarrow> JNull
                 | Some data \<Rightarrow>
                     (case py_get data ''result'' of
                        Inl e \<Rightarrow> JNull
                      | Inr r \<Rightarrow> if r \<noteq> JStr ''success'' then JNull else data))),
      note_io (HttpGet currency_code) w)"

text \<open>The loop of \<^verbatim>\<open>update_currency_rates\<close> over the currencies still to fetch, with
  \<^verbatim>\<open>all_data\<close> as built so far (\<^verbatim>\<open>success_count\<close> is only printed).\<close>

fun update_loop :: "string list \<Rightarrow> (string \<times> json) list \<Rightarrow> world \<Rightarrow> (string \<times> json) list \<times> world" where
  "update_loop [] all_data w = (all_data, w)"
| "update_loop (currency # rest) all_data w =
     (case get_currency_rate currency w of
        (rate_data, w') \<Rightarrow>
          if py_truthy rate_data
          then update_loop rest (AList.update currency rate_data all_data) w'
          else update_loop rest all_data w')"

definition update_currency_rates :: "world \<Rightarrow> (string \<times> json) list \<times> world" where
  "update_currency_rates w = update_loop FAVORITE_CURRENCIES [] w"

section \<open>storage.py\<close>

definition default_filename :: string where
  "default_filename = ''currency.json''"

text \<open>\<^verbatim>\<open>open(filename, 'w')\<close> truncates the file itself; \<^verbatim>\<open>json.dump\<close> then writes into
  it. Every exception is caught and printed.\<close>

definition save_to_file :: "(string \<times> json) list \<Rightarrow> string \<Rightarrow> world \<Rightarrow> world" where
  "save_to_file data filename w =
     (case write_fault w filename of
        OpenFails \<Rightarrow> note_io (FileWrite filename) w
      | WriteFails \<Rightarrow>
          note_io (FileWrite filename)
            (w\<lparr>files := (files w)(filename \<mapsto> \<lparr>content = Partial data, mtime = clock w\<rparr>)\<rparr>)
      | NoFault \<Rightarrow>
          note_io (FileWrite filename)
            (w\<lparr>files := (files w)(filename \<mapsto> \<lparr>content = Document (JObj data), mtime = clock w\<rparr>)\<rparr>))"

definition read_from_file :: "string \<Rightarrow> world \<Rightarrow> json \<times> world" where
  "read_from_file filename w =
     ((case files w filename of
         None \<Rightarrow> JNull
       | Some f \<Rightarrow> (case content f of Document v \<Rightarrow> v | Partial d \<Rightarrow> JNull | Corrupt \<Rightarrow> JNull)),
      note_io (FileRead filename) w)"

definition is_file_recent :: "string \<Rightarrow> int \<Rightarrow> world \<Rightarrow> bool \<times> world" where
  "is_file_recent file_path hours w =
     ((case files w file_path of
         None \<Rightarrow> False
       | Some f \<Rightarrow>
           (case timedelta_hours hours of
              Inl e \<Rightarrow> False
            | Inr delta \<Rightarrow> clock w - mtime f < delta)),
      note_io (FileStat file_path) w)"

definition load_or_update_data :: "string \<Rightarrow> world \<Rightarrow> json \<times> world" where
  "load_or_update_data filename w =
     (case is_file_recent filename 24 w of
        (recent, w1) \<Rightarrow>
          (case (if recent then read_from_file filename w1 else (JNull, w1)) of
             (data, w2) \<Rightarrow>
               if recent \<and> py_truthy data then (data, w2)
               else (case update_currency_rates w2 of
                       (all_data, w3) \<Rightarrow>
                         if all_data \<noteq> [] then (JObj all_data, save_to_file all_data filename w3)
                         else (JNull, w3))))"

text \<open>The body of the \<^verbatim>\<open>try\<close> of \<^verbatim>\<open>get_available_currencies\<close>, on the data read.\<close>

definition available_of :: "json \<Rightarrow> pyexn + string list" where
  "available_of data =
     (if \<not> py_truthy data then Inr []
      else (case py_keys data of
              Inl e \<Rightarrow> Inl e
            | Inr ks \<Rightarrow>
                (case ks of
                   [] \<Rightarrow> Inl IndexError
                 | first_base # _ \<Rightarrow>
                     (case py_getitem data first_base of
                        Inl e \<Rightarrow> Inl e
                      | Inr entry \<Rightarrow>
                          (case py_getitem entry ''rates'' of
                             Inl e \<Rightarrow> Inl e
                           | Inr rates \<Rightarrow> py_keys rates)))))"

definition get_available_currencies :: "world \<Rightarrow> string list \<times> world" where
  "get_available_currencies w =
     (case read_from_file default_filename w of
        (data, w') \<Rightarrow> ((case available_of data of Inl e \<Rightarrow> [] | Inr ks \<Rightarrow> ks), w'))"

text \<open>
  The three messages of \<^verbatim>\<open>get_exchange_rate\<close> (in the source, Russian sentences built
  around the currency code or the exception): the base currency is not found, the target
  currency is not found, an exception was caught. Each is a non-empty string, so
  \<^verbatim>\<open>if error:\<close> holds exactly when the error is not \<^verbatim>\<open>None\<close>.
\<close>

datatype message = BaseNotFound string | TargetNotFound string | LookupFailed pyexn

text \<open>The body of the \<^verbatim>\<open>try\<close> of \<^verbatim>\<open>get_exchange_rate\<close>, on the data read.\<close>

definition rate_of :: "json \<Rightarrow> string \<Rightarrow> string \<Rightarrow> pyexn + (json \<times> message option)" where
  "rate_of data base_currency target_currency =
     (if \<not> py_truthy data then Inr (JNull, Some (BaseNotFound base_currency))
      else (case py_contains data base_currency of
              Inl e \<Rightarrow> Inl e
            | Inr False \<Rightarrow> Inr (JNull, Some (BaseNotFound base_currency))
            | Inr True \<Rightarrow>
                (case py_getitem data base_currency of
                   Inl e \<Rightarrow> Inl e
                 | Inr entry \<Rightarrow>
                     (case py_getitem entry ''rates'' of
                        Inl e \<Rightarrow> Inl e
                      | Inr rates \<Rightarrow>
                          (case py_contains rates target_currency of
                             Inl e \<Rightarrow> Inl e
                           | Inr False \<Rightarrow> Inr (JNull, Some (TargetNotFound target_currency))
                           | Inr True \<Rightarrow>
                               (case py_getitem rates target_currency of
                                  Inl e \<Rightarrow> Inl e
                                | Inr v \<Rightarrow> Inr (v, None)))))))"

definition get_exchange_rate :: "string \<Rightarrow> string \<Rightarrow> world \<Rightarrow> (json \<times> message option) \<times> world" where
  "get_exchange_rate base_currency target_currency w =
     (case read_from_file default_filename w of
        (data, w') \<Rightarrow>
          ((case rate_of data base_currency target_currency of
              Inl e \<Rightarrow> (JNull, Some (LookupFailed e))
            | Inr res \<Rightarrow> res), w'))"

text \<open>\<^verbatim>\<open>convert_currency\<close> has no \<^verbatim>\<open>try\<close>: an exception of the product leaves it. The
  amount is a float (the menu passes \<^verbatim>\<open>float(input(...))\<close>).\<close>

definition convert_currency ::
  "pyfloat \<Rightarrow> string \<Rightarrow> string \<Rightarrow> world \<Rightarrow> (pyexn + (json \<times> message option)) \<times> world" where
  "convert_currency amount base_currency target_currency w =
     (case get_exchange_rate base_currency target_currency w of
        ((rate, error), w') \<Rightarrow>
          if error \<noteq> None then (Inr (JNull, error), w')
          else (case py_mul amount rate of
                  Inl e \<Rightarrow> (Inl e, w')
                | Inr converted_amount \<Rightarrow> (Inr (converted_amount, None), w')))"

section \<open>cli.py\<close>

text \<open>The branch \<^verbatim>\<open>choice == "4"\<close> of the menu loop of \<^verbatim>\<open>main\<close>: the rates are fetched
  and the result of the call is dropped.\<close>

definition main_choice_4 :: "world \<Rightarrow> world" where
  "main_choice_4 w = (case update_currency_rates w of (all_data, w') \<Rightarrow> w')"

section \<open>Notions the properties are stated with\<close>

text \<open>What one fetch of a base currency returns in a world, and whether it succeeds
  (the test \<^verbatim>\<open>if rate_data:\<close> of the refresh loop).\<close>

definition fetched :: "world \<Rightarrow> string \<Rightarrow> json" where
  "fetched w c = fst (get_currency_rate c w)"

definition fetch_ok :: "world \<Rightarrow> string \<Rightarrow> bool" where
  "fetch_ok w c = py_truthy (fetched w c)"

fun is_fetch :: "io_event \<Rightarrow> bool" where
  "is_fetch (HttpGet c) = True"
| "is_fetch (FileStat p) = False"
| "is_fetch (FileRead p) = False"
| "is_fetch (FileWrite p) = False"

text \<open>The rate table of a base entry: the entry is a mapping whose \<^verbatim>\<open>'rates'\<close> is a
  mapping.\<close>

fun rate_table :: "json \<Rightarrow> (string \<times> json) list option" where
  "rate_table (JObj kvs) =
     (case map_of kvs ''rates'' of Some (JObj rs) \<Rightarrow> Some rs | _ \<Rightarrow> None)"
| "rate_table _ = None"

text \<open>The rate a snapshot stores for a pair of currencies, if it stores one.\<close>

fun stored_rate :: "json \<Rightarrow> string \<Rightarrow> string \<Rightarrow> json option" where
  "stored_rate (JObj S) b t =
     (case map_of S b of
        None \<Rightarrow> None
      | Some e \<Rightarrow> (case rate_table e of None \<Rightarrow> None | Some rs \<Rightarrow> map_of rs t))"
| "stored_rate _ b t = None"

fun is_number :: "json \<Rightarrow> bool" where
  "is_number (JInt n) = True"
| "is_number (JFloat f) = True"
| "is_number (JBool b) = True"
| "is_number _ = False"




section \<open>Example worlds\<close>

text \<open>The snapshot of the specification's scenario, cached one hour ago; the provider is
  unreachable.\<close>

definition usd_entry :: json where
  "usd_entry =
     JObj [(''result'', JStr ''success''),
           (''rates'', JObj [(''USD'', JFloat (Finite 1)), (''EUR'', JFloat (Finite (9 / 10))), (''RUB'', JFloat (Finite 95))])]"

definition offline :: "string \<Rightarrow> reply" where
  "offline c = RequestException"

definition world_cached :: world where
  "world_cached =
     \<lparr>files = [default_filename \<mapsto> \<lparr>content = Document (JObj [(''USD'', usd_entry)]), mtime = 0\<rparr>],
      clock = 3600000000, net = offline, write_fault = (\<lambda>p. NoFault), trace = []\<rparr>"

text \<open>No cache file, provider unreachable.\<close>

definition world_empty :: world where
  "world_empty =
     \<lparr>files = Map.empty, clock = 0, net = offline, write_fault = (\<lambda>p. NoFault), trace = []\<rparr>"

text \<open>A provider that answers for USD only, with a newer rate, in front of the cached
  snapshot.\<close>

definition usd_entry_new :: json where
  "usd_entry_new =
     JObj [(''result'', JStr ''success''),
           (''rates'', JObj [(''USD'', JFloat (Finite 1)), (''EUR'', JFloat (Finite (1 / 2)))])]"

definition usd_only :: "string \<Rightarrow> reply" where
  "usd_only c = (if c = ''USD'' then Response 200 (Some usd_entry_new) else Response 404 None)"

definition world_online :: world where
  "world_online = world_cached\<lparr>net := usd_only\<rparr>"

text \<open>A cached snapshot whose USD entry has no \<^verbatim>\<open>'rates'\<close>, and one whose rate for
  EUR is \<^verbatim>\<open>null\<close>.\<close>

definition world_no_rates :: world where
  "world_no_rates =
     world_cached\<lparr>files := [default_filename \<mapsto>
       \<lparr>content = Document (JObj [(''USD'', JObj [(''result'', JStr ''success'')])]), mtime = 0\<rparr>]\<rparr>"

definition world_null_rate :: world where
  "world_null_rate =
     world_cached\<lparr>files := [default_filename \<mapsto>
       \<lparr>content = Document (JObj [(''USD'', JObj [(''rates'', JObj [(''EUR'', JNull)])])]), mtime = 0\<rparr>]\<rparr>"

text \<open>A cached snapshot whose rate for EUR is an integer beyond the range of floats.\<close>

definition world_huge_rate :: world where
  "world_huge_rate =
     world_cached\<lparr>files := [default_filename \<mapsto>
       \<lparr>content = Document (JObj [(''USD'', JObj [(''rates'', JObj [(''EUR'', JInt (10 ^ 309))])])]),
        mtime = 0\<rparr>]\<rparr>"

text \<open>The cached snapshot on a disk that fails during a write.\<close>

definition world_disk_full :: world where
  "world_disk_full = world_cached\<lparr>write_fault := (\<lambda>p. WriteFails)\<rparr>"

text \<open>A first run: no cache file yet, the provider answers for USD.\<close>

definition world_first_run :: world where
  "world_first_run = world_empty\<lparr>net := usd_only\<rparr>"

section \<open>Effects and results of the operations\<close>

lemma read_from_file_world: "snd (read_from_file fn w) = note_io (FileRead fn) w"
  by (simp add: read_from_file_def)

lemma read_from_file_frame:
  "files w fn = files w' fn \<Longrightarrow> fst (read_from_file fn w) = fst (read_from_file fn w')"
  by (simp add: read_from_file_def)

lemma note_io_fields:
  "files (note_io e w) = files w" "clock (note_io e w) = clock w" "net (note_io e w) = net w"
  "write_fault (note_io e w) = write_fault w" "trace (note_io e w) = trace w @ [e]"
  by (simp_all add: note_io_def)

lemma get_currency_rate_world: "snd (get_currency_rate c w) = note_io (HttpGet c) w"
  by (simp add: get_currency_rate_def)

lemma fetched_net: "net w = net w' \<Longrightarrow> fetched w c = fetched w' c"
  by (simp add: fetched_def get_currency_rate_def)

lemma fetched_note_io: "fetched (note_io e w) c = fetched w c"
  by (rule fetched_net) (simp add: note_io_fields)

lemma update_fresh: "k \<notin> fst ` set al \<Longrightarrow> AList.update k v al = al @ [(k, v)]"
  by (induction al) auto

lemma update_loop_world:
  "files (snd (update_loop cs acc w)) = files w \<and> clock (snd (update_loop cs acc w)) = clock w
   \<and> net (snd (update_loop cs acc w)) = net w \<and> write_fault (snd (update_loop cs acc w)) = write_fault w
   \<and> trace (snd (update_loop cs acc w)) = trace w @ map HttpGet cs"
proof (induction cs arbitrary: acc w)
  case Nil
  show ?case by simp
next
  case (Cons c cs)
  obtain rd w' where g: "get_currency_rate c w = (rd, w')" by (cases "get_currency_rate c w")
  then have w': "w' = note_io (HttpGet c) w" using get_currency_rate_world [of c w] by simp
  show ?case
    using Cons.IH [of "AList.update c rd acc" w'] Cons.IH [of acc w']
    by (simp add: g w' note_io_fields)
qed

lemma update_loop_result:
  "distinct cs \<Longrightarrow> set cs \<inter> fst ` set acc = {} \<Longrightarrow>
   fst (update_loop cs acc w) = acc @ map (\<lambda>c. (c, fetched w c)) (filter (fetch_ok w) cs)"
proof (induction cs arbitrary: acc w)
  case Nil
  show ?case by simp
next
  case (Cons c cs)
  obtain rd w' where g: "get_currency_rate c w = (rd, w')" by (cases "get_currency_rate c w")
  then have w': "w' = note_io (HttpGet c) w" using get_currency_rate_world [of c w] by simp
  have rd: "rd = fetched w c" using g by (simp add: fetched_def)
  have same: "fetched w' = fetched w" "fetch_ok w' = fetch_ok w"
    by (auto simp: w' fetched_note_io fetch_ok_def)
  from Cons.prems have c: "c \<notin> fst ` set acc" and d: "distinct cs" and n: "c \<notin> set cs"
    and dis: "set cs \<inter> fst ` set acc = {}" by auto
  show ?case
  proof (cases "py_truthy rd")
    case True
    have "set cs \<inter> fst ` set (acc @ [(c, rd)]) = {}" using dis n by auto
    then have "fst (update_loop cs (acc @ [(c, rd)]) w')
        = (acc @ [(c, rd)]) @ map (\<lambda>c. (c, fetched w' c)) (filter (fetch_ok w') cs)"
      using Cons.IH [OF d] by blast
    moreover have "fetch_ok w c" using True by (simp add: fetch_ok_def rd)
    ultimately show ?thesis using True g c by (simp add: update_fresh same rd)
  next
    case False
    have "fst (update_loop cs acc w') = acc @ map (\<lambda>c. (c, fetched w' c)) (filter (fetch_ok w') cs)"
      using Cons.IH [OF d dis] by blast
    moreover have "\<not> fetch_ok w c" using False by (simp add: fetch_ok_def rd)
    ultimately show ?thesis using False g by (simp add: same rd)
  qed
qed

lemma update_currency_rates_result:
  "fst (update_currency_rates w) = map (\<lambda>c. (c, fetched w c)) (filter (fetch_ok w) FAVORITE_CURRENCIES)"
proof -
  have "distinct FAVORITE_CURRENCIES" by (simp add: FAVORITE_CURRENCIES_def)
  then show ?thesis
    using update_loop_result [of FAVORITE_CURRENCIES "[]" w] by (simp add: update_currency_rates_def)
qed

lemma update_currency_rates_world:
  "files (snd (update_currency_rates w)) = files w"
  "clock (snd (update_currency_rates w)) = clock w"
  "net (snd (update_currency_rates w)) = net w"
  "write_fault (snd (update_currency_rates w)) = write_fault w"
  "trace (snd (update_currency_rates w)) = trace w @ map HttpGet FAVORITE_CURRENCIES"
  using update_loop_world [of FAVORITE_CURRENCIES "[]" w] by (simp_all add: update_currency_rates_def)

lemma is_file_recent_world: "snd (is_file_recent p h w) = note_io (FileStat p) w"
  by (simp add: is_file_recent_def)

lemma get_exchange_rate_world:
  "snd (get_exchange_rate b t w) = note_io (FileRead default_filename) w"
  by (simp add: get_exchange_rate_def read_from_file_def)

lemma get_exchange_rate_result:
  "fst (get_exchange_rate b t w) =
     (case rate_of (fst (read_from_file default_filename w)) b t of
        Inl e \<Rightarrow> (JNull, Some (LookupFailed e)) | Inr res \<Rightarrow> res)"
  by (simp add: get_exchange_rate_def read_from_file_def)

lemma convert_currency_world:
  "snd (convert_currency a b t w) = note_io (FileRead default_filename) w"
proof -
  obtain rate error w' where g: "get_exchange_rate b t w = ((rate, error), w')"
    by (cases "get_exchange_rate b t w") auto
  then have "w' = note_io (FileRead default_filename) w"
    using get_exchange_rate_world [of b t w] by simp
  then show ?thesis by (simp add: convert_currency_def g split: sum.splits)
qed

lemma convert_currency_result:
  "fst (convert_currency a b t w) =
     (case fst (get_exchange_rate b t w) of
        (rate, error) \<Rightarrow>
          if error \<noteq> None then Inr (JNull, error)
          else (case py_mul a rate of Inl e \<Rightarrow> Inl e | Inr v \<Rightarrow> Inr (v, None)))"
  by (cases "get_exchange_rate b t w") (auto simp: convert_currency_def split: sum.splits)

lemma get_available_currencies_world:
  "snd (get_available_currencies w) = note_io (FileRead default_filename) w"
  by (simp add: get_available_currencies_def read_from_file_def)

lemma get_available_currencies_result:
  "fst (get_available_currencies w) =
     (case available_of (fst (read_from_file default_filename w)) of Inl e \<Rightarrow> [] | Inr ks \<Rightarrow> ks)"
  by (simp add: get_available_currencies_def read_from_file_def)

lemma rate_of_no_base: "map_of S b = None \<Longrightarrow> rate_of (JObj S) b t = Inr (JNull, Some (BaseNotFound b))"
  by (simp add: rate_of_def)

lemma rate_of_table:
  "map_of S b = Some e \<Longrightarrow> rate_table e = Some rs \<Longrightarrow>
   rate_of (JObj S) b t =
     (case map_of rs t of None \<Rightarrow> Inr (JNull, Some (TargetNotFound t)) | Some v \<Rightarrow> Inr (v, None))"
  by (cases e) (auto simp: rate_of_def split: option.splits json.splits)

lemma rate_of_no_rates:
  "map_of S b = Some (JObj kvs) \<Longrightarrow> map_of kvs ''rates'' = None \<Longrightarrow>
   rate_of (JObj S) b t = Inl KeyError"
  by (auto simp: rate_of_def)

lemma rate_of_no_table:
  "map_of S b = Some e \<Longrightarrow> rate_table e = None \<Longrightarrow>
   rate_of (JObj S) b t \<in> {Inr (JNull, Some (TargetNotFound t)), Inl KeyError, Inl TypeError}"
proof -
  assume s: "map_of S b = Some e" and r: "rate_table e = None"
  then have ne: "S \<noteq> []" by auto
  show ?thesis
  proof (cases e)
    case (JObj kvs)
    show ?thesis
    proof (cases "map_of kvs ''rates''")
      case None
      then show ?thesis using s JObj by (simp add: rate_of_no_rates)
    next
      case (Some rates)
      then have "\<forall>rs. rates \<noteq> JObj rs" using r JObj by auto
      then show ?thesis using s JObj Some ne
        by (cases rates) (auto simp: rate_of_def split: bool.splits)
    qed
  qed (use s ne in \<open>auto simp: rate_of_def\<close>)
qed

lemma rate_of_success:
  "rate_of data b t = Inr (v, None) \<longleftrightarrow> stored_rate data b t = Some v"
proof (cases data)
  case (JObj S)
  show ?thesis
  proof (cases "map_of S b")
    case None
    then show ?thesis using JObj by (simp add: rate_of_no_base)
  next
    case (Some e)
    show ?thesis
    proof (cases "rate_table e")
      case None
      then show ?thesis using JObj Some rate_of_no_table [OF Some None, of t] by auto
    next
      case (Some rs)
      then show ?thesis using JObj \<open>map_of S b = Some e\<close>
        by (auto simp: rate_of_table split: option.splits)
    qed
  qed
qed (auto simp: rate_of_def split: if_splits bool.splits)

lemma rate_of_shape:
  "rate_of data b t = Inr (v, e) \<Longrightarrow> (v = JNull \<and> e \<noteq> None) \<or> e = None"
  by (auto simp: rate_of_def split: if_splits sum.splits bool.splits option.splits)

lemma py_mul_TypeError: "py_mul a v = Inl TypeError \<longleftrightarrow> \<not> is_number v"
  by (cases v) (auto simp: py_mul_def int_to_float_def)

lemma py_mul_OverflowError:
  "py_mul a v = Inl OverflowError \<longleftrightarrow> (\<exists>n. v = JInt n \<and> \<not> in_float_range n)"
  by (cases v) (auto simp: py_mul_def int_to_float_def)

lemma py_mul_raises: "py_mul a v = Inl x \<Longrightarrow> x = TypeError \<or> x = OverflowError"
  by (cases v) (auto simp: py_mul_def int_to_float_def split: if_splits)

lemma py_mul_returns: "py_mul a v = Inr u \<Longrightarrow> u \<noteq> JNull"
  by (auto simp: py_mul_def split: sum.splits)


section \<open>The cache: refresh, persistence, freshness\<close>

text \<open>
  C1 (force refresh, menu action 4). The claim: the action behaves like the refresh step
  of \<^verbatim>\<open>load_or_update_data\<close>, so that when a fetch succeeds the new snapshot is written to
  the cache file and later lookups see it. The code fetches and drops the result. With
  the old snapshot cached and the provider answering for USD with a new rate, the fetch
  returns the new entry, yet after the action the files are unchanged, the cache still
  parses to the old snapshot and the lookup still returns the old rate 0.9; in the
  sibling path, \<^verbatim>\<open>load_or_update_data\<close> on a first run, the same fetch is saved.
\<close>

theorem main_choice_4_drops_rates:
  "fst (update_currency_rates world_online) = [(''USD'', usd_entry_new)]
   \<and> files (main_choice_4 world_online) = files world_online
   \<and> fst (read_from_file default_filename (main_choice_4 world_online))
        = JObj [(''USD'', usd_entry)]
   \<and> fst (get_exchange_rate ''USD'' ''EUR'' (main_choice_4 world_online)) = (JFloat (Finite (9 / 10)), None)
   \<and> fst (load_or_update_data default_filename world_first_run)
        = JObj [(''USD'', usd_entry_new)]
   \<and> files (snd (load_or_update_data default_filename world_first_run)) default_filename
        = Some \<lparr>content = Document (JObj [(''USD'', usd_entry_new)]), mtime = 0\<rparr>"
proof -
  have ok: "fetch_ok world_online ''USD''" "\<not> fetch_ok world_online ''EUR''"
    "\<not> fetch_ok world_online ''GBP''" "\<not> fetch_ok world_online ''RUB''"
    "fetched world_online ''USD'' = usd_entry_new"
    by (simp_all add: fetch_ok_def fetched_def get_currency_rate_def world_online_def
        usd_only_def usd_entry_new_def)
  have u: "fst (update_currency_rates world_online) = [(''USD'', usd_entry_new)]"
    by (simp add: update_currency_rates_result FAVORITE_CURRENCIES_def ok)
  have f: "files (main_choice_4 world_online) = files world_online"
    using update_currency_rates_world(1) [of world_online]
    by (simp add: main_choice_4_def case_prod_beta)
  have r: "fst (read_from_file default_filename (main_choice_4 world_online))
        = JObj [(''USD'', usd_entry)]"
  proof -
    have "files (main_choice_4 world_online) default_filename
        = Some \<lparr>content = Document (JObj [(''USD'', usd_entry)]), mtime = 0\<rparr>"
      unfolding f by (simp add: world_online_def world_cached_def)
    then show ?thesis by (simp add: read_from_file_def)
  qed
  have g: "fst (get_exchange_rate ''USD'' ''EUR'' (main_choice_4 world_online)) = (JFloat (Finite (9 / 10)), None)"
    by (simp add: get_exchange_rate_result r rate_of_def usd_entry_def)
  have l: "load_or_update_data default_filename world_first_run
      = (JObj [(''USD'', usd_entry_new)],
         save_to_file [(''USD'', usd_entry_new)] default_filename
           (snd (update_currency_rates (note_io (FileStat default_filename) world_first_run))))"
    by (simp add: load_or_update_data_def is_file_recent_def update_currency_rates_def
        FAVORITE_CURRENCIES_def get_currency_rate_def note_io_def world_first_run_def
        world_empty_def usd_only_def usd_entry_new_def)
  define w3 where "w3 = snd (update_currency_rates (note_io (FileStat default_filename) world_first_run))"
  have w3: "clock w3 = 0" "write_fault w3 default_filename = NoFault"
    by (simp_all add: w3_def update_currency_rates_world note_io_fields world_first_run_def
        world_empty_def)
  have s: "files (snd (load_or_update_data default_filename world_first_run)) default_filename
        = Some \<lparr>content = Document (JObj [(''USD'', usd_entry_new)]), mtime = 0\<rparr>"
    unfolding l w3_def [symmetric] by (simp add: save_to_file_def note_io_fields w3)
  show ?thesis using u f r g s by (simp add: l)
qed

text \<open>
  C2 (persisting), counterexample. The claim: the snapshot is written to a temporary file
  that is then renamed, so a write that fails part-way leaves the previous cache file
  intact. \<^verbatim>\<open>save_to_file\<close> opens the cache file itself for writing: when the write fails
  after the file was opened, the old snapshot is gone, the file holds a part of the new
  one, and reading it gives \<^verbatim>\<open>None\<close>.
\<close>

theorem save_to_file_in_place_counterexample:
  "files world_disk_full default_filename
      = Some \<lparr>content = Document (JObj [(''USD'', usd_entry)]), mtime = 0\<rparr>
   \<and> files (save_to_file [(''USD'', usd_entry_new)] default_filename world_disk_full) default_filename
      = Some \<lparr>content = Partial [(''USD'', usd_entry_new)], mtime = 3600000000\<rparr>
   \<and> files (save_to_file [(''USD'', usd_entry_new)] default_filename world_disk_full) default_filename
      \<noteq> files world_disk_full default_filename
   \<and> fst (read_from_file default_filename
        (save_to_file [(''USD'', usd_entry_new)] default_filename world_disk_full)) = JNull"
  by (simp add: save_to_file_def read_from_file_def note_io_fields world_disk_full_def
      world_cached_def)

text \<open>
  C2, as the code has it. \<^verbatim>\<open>save_to_file\<close> writes in place and changes no other path (no
  temporary file): the target holds the whole serialisation when the write completes, a
  part of it when the write fails after opening, and is left as it was only when the
  opening itself fails.
\<close>

theorem save_to_file_in_place:
  "(\<forall>p. p \<noteq> filename \<longrightarrow> files (save_to_file data filename w) p = files w p)
   \<and> (write_fault w filename = NoFault \<longrightarrow>
        files (save_to_file data filename w) filename
          = Some \<lparr>content = Document (JObj data), mtime = clock w\<rparr>)
   \<and> (write_fault w filename = WriteFails \<longrightarrow>
        files (save_to_file data filename w) filename
          = Some \<lparr>content = Partial data, mtime = clock w\<rparr>)
   \<and> (write_fault w filename = OpenFails \<longrightarrow>
        files (save_to_file data filename w) filename = files w filename)"
  by (simp add: save_to_file_def note_io_fields split: fault.splits)

text \<open>C2, at the cached snapshot on a sound disk: no temporary file appears, and the
  target holds the new snapshot.\<close>

theorem save_to_file_in_place_witness:
  "''currency.json.tmp'' \<noteq> default_filename
   \<and> files (save_to_file [(''USD'', usd_entry_new)] default_filename world_cached) ''currency.json.tmp''
       = None
   \<and> write_fault world_cached default_filename = NoFault
   \<and> files (save_to_file [(''USD'', usd_entry_new)] default_filename world_cached) default_filename
       = Some \<lparr>content = Document (JObj [(''USD'', usd_entry_new)]), mtime = 3600000000\<rparr>"
proof -
  have a: "''currency.json.tmp'' \<noteq> default_filename" by (simp add: default_filename_def)
  have b: "write_fault world_cached default_filename = NoFault" by (simp add: world_cached_def)
  have c: "files world_cached ''currency.json.tmp'' = None" "clock world_cached = 3600000000"
    by (simp_all add: world_cached_def default_filename_def)
  show ?thesis
    using save_to_file_in_place [of default_filename "[(''USD'', usd_entry_new)]" world_cached] a b c
    by simp
qed

text \<open>
  C4 (freshness boundary). For an existing file, and a number of hours that
  \<^verbatim>\<open>timedelta\<close> accepts, \<^verbatim>\<open>is_file_recent\<close> holds exactly when the clock minus the file's
  time of change is strictly less than that many hours. With 24 hours, a file changed
  exactly 24 hours ago is not recent, and one changed 23 hours 59 minutes ago is.
\<close>

theorem is_file_recent_strict:
  assumes "files w p = Some f"
    and "- 999999999 \<le> hours div 24" and "hours div 24 \<le> 999999999"
  shows "(fst (is_file_recent p hours w) \<longleftrightarrow> clock w - mtime f < hours * 3600000000)
    \<and> (mtime f = clock w - 24 * 3600000000 \<longrightarrow> \<not> fst (is_file_recent p 24 w))
    \<and> (mtime f = clock w - (23 * 3600000000 + 59 * 60000000) \<longrightarrow> fst (is_file_recent p 24 w))"
  using assms by (simp add: is_file_recent_def timedelta_hours_def)

text \<open>C4, at a file that is one hour old: recent for 24 hours, not recent for 1 hour.\<close>

theorem is_file_recent_strict_witness:
  "files world_cached default_filename = Some \<lparr>content = Document (JObj [(''USD'', usd_entry)]), mtime = 0\<rparr>
   \<and> fst (is_file_recent default_filename 24 world_cached)
   \<and> \<not> fst (is_file_recent default_filename 1 world_cached)"
  using is_file_recent_strict [of world_cached default_filename
      "\<lparr>content = Document (JObj [(''USD'', usd_entry)]), mtime = 0\<rparr>" 24]
    is_file_recent_strict [of world_cached default_filename
      "\<lparr>content = Document (JObj [(''USD'', usd_entry)]), mtime = 0\<rparr>" 1]
  by (simp add: world_cached_def)

text \<open>
  C7 (a fresh cache is used as it is). When the cache file is recent and parses to usable
  data, \<^verbatim>\<open>load_or_update_data\<close> returns that data, calls the provider not once (its only
  input and output are the check of the file and its read) and leaves the files as they
  are.
\<close>

theorem load_or_update_data_cached:
  assumes "fst (is_file_recent filename 24 w)"
    and "py_truthy (fst (read_from_file filename w))"
  shows "fst (load_or_update_data filename w) = fst (read_from_file filename w)
    \<and> filter is_fetch (trace (snd (load_or_update_data filename w))) = filter is_fetch (trace w)
    \<and> trace (snd (load_or_update_data filename w)) = trace w @ [FileStat filename, FileRead filename]
    \<and> files (snd (load_or_update_data filename w)) = files w"
proof -
  obtain w1 where r: "is_file_recent filename 24 w = (True, w1)"
    using assms(1) by (cases "is_file_recent filename 24 w") simp
  then have w1: "w1 = note_io (FileStat filename) w"
    using is_file_recent_world [of filename 24 w] by simp
  obtain data w2 where d: "read_from_file filename w1 = (data, w2)"
    by (cases "read_from_file filename w1")
  then have w2: "w2 = note_io (FileRead filename) w1"
    using read_from_file_world [of filename w1] by simp
  have "fst (read_from_file filename w1) = fst (read_from_file filename w)"
    by (rule read_from_file_frame) (simp add: w1 note_io_fields)
  then have data: "data = fst (read_from_file filename w)" using d by simp
  have res: "load_or_update_data filename w = (data, w2)"
    using assms(2) by (simp add: load_or_update_data_def r d data)
  show ?thesis by (simp add: res data w2 w1 note_io_fields)
qed

text \<open>C7, at the snapshot cached one hour ago.\<close>

theorem load_or_update_data_cached_witness:
  "fst (is_file_recent default_filename 24 world_cached)
   \<and> py_truthy (fst (read_from_file default_filename world_cached))
   \<and> fst (load_or_update_data default_filename world_cached) = JObj [(''USD'', usd_entry)]
   \<and> trace (snd (load_or_update_data default_filename world_cached))
       = [FileStat default_filename, FileRead default_filename]"
proof -
  have a: "fst (is_file_recent default_filename 24 world_cached)"
    by (simp add: is_file_recent_def timedelta_hours_def world_cached_def)
  have b: "fst (read_from_file default_filename world_cached) = JObj [(''USD'', usd_entry)]"
    by (simp add: read_from_file_def world_cached_def)
  have c: "trace world_cached = []" by (simp add: world_cached_def)
  show ?thesis
    using load_or_update_data_cached [of default_filename world_cached] a b c by simp
qed

text \<open>
  C8 (refresh). When there is no usable cache (the file is missing, stale or does not
  parse to usable data), \<^verbatim>\<open>load_or_update_data\<close> returns \<^verbatim>\<open>None\<close> if the fetch fails for
  every currency of the watch-list, and otherwise the snapshot whose keys are exactly the
  currencies fetched successfully, in the order of the watch-list, each with what its
  fetch returned.
\<close>

theorem load_or_update_data_refresh:
  assumes "\<not> (fst (is_file_recent filename 24 w) \<and> py_truthy (fst (read_from_file filename w)))"
  shows "((\<forall>c \<in> set FAVORITE_CURRENCIES. \<not> fetch_ok w c)
            \<longrightarrow> fst (load_or_update_data filename w) = JNull)
    \<and> ((\<exists>c \<in> set FAVORITE_CURRENCIES. fetch_ok w c)
            \<longrightarrow> fst (load_or_update_data filename w)
                  = JObj (map (\<lambda>c. (c, fetched w c)) (filter (fetch_ok w) FAVORITE_CURRENCIES)))"
proof -
  obtain recent w1 where r: "is_file_recent filename 24 w = (recent, w1)"
    by (cases "is_file_recent filename 24 w")
  then have w1: "w1 = note_io (FileStat filename) w"
    using is_file_recent_world [of filename 24 w] by simp
  obtain data w2 where d: "(if recent then read_from_file filename w1 else (JNull, w1)) = (data, w2)"
    by (cases "if recent then read_from_file filename w1 else (JNull, w1)")
  have n1: "net w1 = net w" by (simp add: w1 note_io_fields)
  have "net w2 = net w1"
    using d read_from_file_world [of filename w1] by (auto simp: note_io_fields split: if_splits)
  then have n2: "net w2 = net w" using n1 by simp
  have same: "fetched w2 = fetched w" "fetch_ok w2 = fetch_ok w"
    using fetched_net [OF n2] by (auto simp: fetch_ok_def)
  have "fst (read_from_file filename w1) = fst (read_from_file filename w)"
    by (rule read_from_file_frame) (simp add: w1 note_io_fields)
  then have miss: "\<not> (recent \<and> py_truthy data)"
    using assms r d by (auto split: if_splits)
  obtain all_data w3 where u: "update_currency_rates w2 = (all_data, w3)"
    by (cases "update_currency_rates w2")
  then have all: "all_data = map (\<lambda>c. (c, fetched w c)) (filter (fetch_ok w) FAVORITE_CURRENCIES)"
    using update_currency_rates_result [of w2] by (simp add: same)
  have res: "fst (load_or_update_data filename w) = (if all_data \<noteq> [] then JObj all_data else JNull)"
    using miss by (auto simp add: load_or_update_data_def r d u)
  have "all_data \<noteq> [] \<longleftrightarrow> (\<exists>c \<in> set FAVORITE_CURRENCIES. fetch_ok w c)"
    by (simp add: all filter_empty_conv)
  then show ?thesis using res all by auto
qed

text \<open>C8, with no cache file: an unreachable provider gives \<^verbatim>\<open>None\<close>, a provider that
  answers for USD only gives the snapshot with the key USD.\<close>

theorem load_or_update_data_refresh_witness:
  "\<not> (fst (is_file_recent default_filename 24 world_empty)
        \<and> py_truthy (fst (read_from_file default_filename world_empty)))
   \<and> fst (load_or_update_data default_filename world_empty) = JNull
   \<and> \<not> (fst (is_file_recent default_filename 24 (world_empty\<lparr>net := usd_only\<rparr>))
        \<and> py_truthy (fst (read_from_file default_filename (world_empty\<lparr>net := usd_only\<rparr>))))
   \<and> fst (load_or_update_data default_filename (world_empty\<lparr>net := usd_only\<rparr>))
       = JObj [(''USD'', usd_entry_new)]"
proof -
  have a: "\<not> fst (is_file_recent default_filename 24 world_empty)"
    "\<not> fst (is_file_recent default_filename 24 (world_empty\<lparr>net := usd_only\<rparr>))"
    by (simp_all add: is_file_recent_def world_empty_def)
  have f: "fetched world_empty = (\<lambda>c. JNull)"
    by (rule ext) (simp add: fetched_def get_currency_rate_def world_empty_def offline_def)
  have g: "fetched (world_empty\<lparr>net := usd_only\<rparr>) ''USD'' = usd_entry_new"
    "\<not> fetch_ok (world_empty\<lparr>net := usd_only\<rparr>) ''EUR''"
    "\<not> fetch_ok (world_empty\<lparr>net := usd_only\<rparr>) ''GBP''"
    "\<not> fetch_ok (world_empty\<lparr>net := usd_only\<rparr>) ''RUB''"
    "fetch_ok (world_empty\<lparr>net := usd_only\<rparr>) ''USD''"
    by (simp_all add: fetch_ok_def fetched_def get_currency_rate_def usd_only_def usd_entry_new_def)
  show ?thesis
    using load_or_update_data_refresh [of default_filename world_empty]
      load_or_update_data_refresh [of default_filename "world_empty\<lparr>net := usd_only\<rparr>"]
      a g
    by (simp add: fetch_ok_def f FAVORITE_CURRENCIES_def)
qed

section \<open>The lookups\<close>

text \<open>
  C3 (lookups are pure), counterexample. The claim: a lookup is a function of a snapshot
  argument and does no file input or output. The lookups of the source take no snapshot:
  each call reads the file \<^verbatim>\<open>currency.json\<close>, and with the same arguments the result
  changes when the file does.
\<close>

theorem lookup_reads_cache_file_counterexample:
  "trace world_cached = []
   \<and> trace (snd (get_exchange_rate ''USD'' ''EUR'' world_cached)) = [FileRead ''currency.json'']
   \<and> trace (snd (get_available_currencies world_cached)) = [FileRead ''currency.json'']
   \<and> trace (snd (convert_currency (Finite 100) ''USD'' ''EUR'' world_cached)) = [FileRead ''currency.json'']
   \<and> fst (get_exchange_rate ''USD'' ''EUR'' world_cached) = (JFloat (Finite (9 / 10)), None)
   \<and> fst (get_exchange_rate ''USD'' ''EUR'' (world_cached\<lparr>files := Map.empty\<rparr>))
        = (JNull, Some (BaseNotFound ''USD''))"
  by (simp add: get_exchange_rate_world get_available_currencies_world convert_currency_world
      note_io_fields get_exchange_rate_result rate_of_def read_from_file_def
      world_cached_def default_filename_def usd_entry_def)

text \<open>
  C3, as the code has it. A lookup (available currencies, rate, conversion) is a function
  of its arguments and of the cache file \<^verbatim>\<open>currency.json\<close> alone: two worlds with the same
  cache file give the same result. Its only effect is one read of that file: it writes no
  file and calls no provider.
\<close>

theorem lookup_depends_on_cache_file_only:
  assumes "files w default_filename = files w' default_filename"
  shows "fst (get_available_currencies w) = fst (get_available_currencies w')
    \<and> fst (get_exchange_rate b t w) = fst (get_exchange_rate b t w')
    \<and> fst (convert_currency a b t w) = fst (convert_currency a b t w')
    \<and> snd (get_available_currencies w) = note_io (FileRead default_filename) w
    \<and> snd (get_exchange_rate b t w) = note_io (FileRead default_filename) w
    \<and> snd (convert_currency a b t w) = note_io (FileRead default_filename) w"
proof -
  have r: "fst (read_from_file default_filename w) = fst (read_from_file default_filename w')"
    using assms by (rule read_from_file_frame)
  have g: "fst (get_exchange_rate b t w) = fst (get_exchange_rate b t w')"
    by (simp add: get_exchange_rate_result r)
  have c: "fst (convert_currency a b t w) = fst (convert_currency a b t w')"
    by (simp add: convert_currency_result g)
  have l: "fst (get_available_currencies w) = fst (get_available_currencies w')"
    by (simp add: get_available_currencies_result r)
  show ?thesis
    using g c l
    by (simp add: get_available_currencies_world get_exchange_rate_world convert_currency_world)
qed

text \<open>C3, at the cached snapshot with and without a reachable provider.\<close>

theorem lookup_depends_on_cache_file_only_witness:
  "files world_cached default_filename = files world_online default_filename
   \<and> fst (get_exchange_rate ''USD'' ''EUR'' world_online) = (JFloat (Finite (9 / 10)), None)
   \<and> files (snd (get_exchange_rate ''USD'' ''EUR'' world_cached)) = files world_cached
   \<and> trace (snd (get_exchange_rate ''USD'' ''EUR'' world_cached)) = [FileRead default_filename]"
proof -
  have a: "files world_cached default_filename = files world_online default_filename"
    by (simp add: world_online_def)
  have b: "fst (get_exchange_rate ''USD'' ''EUR'' world_cached) = (JFloat (Finite (9 / 10)), None)"
    by (simp add: get_exchange_rate_result rate_of_def read_from_file_def
        world_cached_def usd_entry_def)
  have c: "trace world_cached = []" by (simp add: world_cached_def)
  show ?thesis
    using lookup_depends_on_cache_file_only [OF a, of "''USD''" "''EUR''" "Finite 1"] a b c
    by (simp add: note_io_fields)
qed



text \<open>
  C6 (errors of the rate lookup), counterexample. The claim: the lookup fails with
  BaseNotFound, or fails with TargetNotFound, or succeeds. With USD a key whose entry has
  no \<^verbatim>\<open>'rates'\<close>, the \<^verbatim>\<open>KeyError\<close> is caught and the lookup fails with the third message
  of the source, which is none of the three outcomes.
\<close>

theorem get_exchange_rate_missing_table_counterexample:
  "fst (read_from_file default_filename world_no_rates)
      = JObj [(''USD'', JObj [(''result'', JStr ''success'')])]
   \<and> map_of [(''USD'', JObj [(''result'', JStr ''success'')])] ''USD'' \<noteq> None
   \<and> fst (get_exchange_rate ''USD'' ''EUR'' world_no_rates) = (JNull, Some (LookupFailed KeyError))
   \<and> \<not> (fst (get_exchange_rate ''USD'' ''EUR'' world_no_rates) = (JNull, Some (BaseNotFound ''USD''))
        \<or> fst (get_exchange_rate ''USD'' ''EUR'' world_no_rates) = (JNull, Some (TargetNotFound ''EUR''))
        \<or> snd (fst (get_exchange_rate ''USD'' ''EUR'' world_no_rates)) = None)"
  by (simp add: get_exchange_rate_def read_from_file_def rate_of_def world_no_rates_def
      world_cached_def default_filename_def)

text \<open>
  C6, as the code has it. Without usable data in the cache the lookup fails with
  BaseNotFound. When the cache holds a mapping: it fails with BaseNotFound exactly when
  the base is not a key; when the base is a key and its entry has a rate table, it fails
  with TargetNotFound exactly when the target is not a key of the table, and succeeds
  with the stored rate otherwise; when the base is a key and its entry has no rate table,
  it fails, with the message for a caught exception when the entry is a mapping without
  \<^verbatim>\<open>'rates'\<close>.
\<close>

theorem get_exchange_rate_outcomes:
  "(\<not> py_truthy (fst (read_from_file default_filename w)) \<longrightarrow>
      fst (get_exchange_rate b t w) = (JNull, Some (BaseNotFound b)))
   \<and> (\<forall>S. fst (read_from_file default_filename w) = JObj S \<longrightarrow>
        (fst (get_exchange_rate b t w) = (JNull, Some (BaseNotFound b)) \<longleftrightarrow> map_of S b = None)
      \<and> (\<forall>e rs. map_of S b = Some e \<and> rate_table e = Some rs \<longrightarrow>
            (fst (get_exchange_rate b t w) = (JNull, Some (TargetNotFound t)) \<longleftrightarrow> map_of rs t = None)
            \<and> (\<forall>v. map_of rs t = Some v \<longrightarrow> fst (get_exchange_rate b t w) = (v, None)))
      \<and> (\<forall>e. map_of S b = Some e \<and> rate_table e = None \<longrightarrow>
            fst (get_exchange_rate b t w) \<in>
              {(JNull, Some (TargetNotFound t)), (JNull, Some (LookupFailed KeyError)),
               (JNull, Some (LookupFailed TypeError))})
      \<and> (\<forall>kvs. map_of S b = Some (JObj kvs) \<and> map_of kvs ''rates'' = None \<longrightarrow>
            fst (get_exchange_rate b t w) = (JNull, Some (LookupFailed KeyError))))"
proof (intro conjI allI impI)
  assume "\<not> py_truthy (fst (read_from_file default_filename w))"
  then show "fst (get_exchange_rate b t w) = (JNull, Some (BaseNotFound b))"
    by (simp add: get_exchange_rate_result rate_of_def)
next
  fix S
  assume "fst (read_from_file default_filename w) = JObj S"
  then have res: "fst (get_exchange_rate b t w) =
      (case rate_of (JObj S) b t of Inl e \<Rightarrow> (JNull, Some (LookupFailed e)) | Inr res \<Rightarrow> res)"
    by (simp add: get_exchange_rate_result)
  show "fst (get_exchange_rate b t w) = (JNull, Some (BaseNotFound b)) \<longleftrightarrow> map_of S b = None"
  proof (cases "map_of S b")
    case None
    then show ?thesis by (simp add: res rate_of_no_base)
  next
    case (Some e)
    show ?thesis
    proof (cases "rate_table e")
      case None
      then show ?thesis using Some rate_of_no_table [OF Some None, of t] by (auto simp: res)
    next
      case (Some rs)
      then show ?thesis using \<open>map_of S b = Some e\<close>
        by (auto simp: res rate_of_table split: option.splits)
    qed
  qed
  {
    fix e rs
    assume a: "map_of S b = Some e \<and> rate_table e = Some rs"
    then show "fst (get_exchange_rate b t w) = (JNull, Some (TargetNotFound t)) \<longleftrightarrow> map_of rs t = None"
      by (auto simp: res rate_of_table split: option.splits)
    fix v
    assume "map_of rs t = Some v"
    then show "fst (get_exchange_rate b t w) = (v, None)"
      using a by (auto simp: res rate_of_table)
  }
  {
    fix e
    assume "map_of S b = Some e \<and> rate_table e = None"
    then have "map_of S b = Some e" and "rate_table e = None" by simp_all
    then show "fst (get_exchange_rate b t w) \<in>
        {(JNull, Some (TargetNotFound t)), (JNull, Some (LookupFailed KeyError)),
         (JNull, Some (LookupFailed TypeError))}"
      using rate_of_no_table [of S b e t] by (auto simp: res)
  }
  {
    fix kvs
    assume "map_of S b = Some (JObj kvs) \<and> map_of kvs ''rates'' = None"
    then show "fst (get_exchange_rate b t w) = (JNull, Some (LookupFailed KeyError))"
      by (simp add: res rate_of_no_rates)
  }
qed

text \<open>C6, at the scenario of the specification and at a missing cache file.\<close>

theorem get_exchange_rate_outcomes_witness:
  "fst (read_from_file default_filename world_cached) = JObj [(''USD'', usd_entry)]
   \<and> fst (get_exchange_rate ''EUR'' ''USD'' world_cached) = (JNull, Some (BaseNotFound ''EUR''))
   \<and> fst (get_exchange_rate ''USD'' ''GBP'' world_cached) = (JNull, Some (TargetNotFound ''GBP''))
   \<and> fst (get_exchange_rate ''USD'' ''RUB'' world_cached) = (JFloat (Finite 95), None)
   \<and> \<not> py_truthy (fst (read_from_file default_filename world_empty))
   \<and> fst (get_exchange_rate ''USD'' ''EUR'' world_empty) = (JNull, Some (BaseNotFound ''USD''))"
proof -
  have a: "fst (read_from_file default_filename world_cached) = JObj [(''USD'', usd_entry)]"
    by (simp add: read_from_file_def world_cached_def)
  have d: "rate_table usd_entry
      = Some [(''USD'', JFloat (Finite 1)), (''EUR'', JFloat (Finite (9 / 10))), (''RUB'', JFloat (Finite 95))]"
    by (simp add: usd_entry_def)
  have e: "\<not> py_truthy (fst (read_from_file default_filename world_empty))"
    by (simp add: read_from_file_def world_empty_def)
  show ?thesis
    using get_exchange_rate_outcomes [of world_cached "''EUR''" "''USD''"]
      get_exchange_rate_outcomes [of world_cached "''USD''" "''GBP''"]
      get_exchange_rate_outcomes [of world_cached "''USD''" "''RUB''"]
      get_exchange_rate_outcomes [of world_empty "''USD''" "''EUR''"] a d e
    by simp
qed

text \<open>
  C9 (the result pair), counterexample. The claim: the lookup and the conversion each
  return a pair with exactly one of value and error. With the rate of EUR stored as
  \<^verbatim>\<open>null\<close>, the lookup returns \<^verbatim>\<open>(None, None)\<close>, and the conversion returns no pair: the
  product raises \<^verbatim>\<open>TypeError\<close>.
\<close>

theorem result_pair_null_rate_counterexample:
  "fst (get_exchange_rate ''USD'' ''EUR'' world_null_rate) = (JNull, None)
   \<and> fst (convert_currency (Finite 100) ''USD'' ''EUR'' world_null_rate) = Inl TypeError"
  by (simp add: convert_currency_def get_exchange_rate_def read_from_file_def rate_of_def
      py_mul_def world_null_rate_def world_cached_def default_filename_def)

text \<open>
  C9, as the code has it. The lookup never returns both a value and an error, and it
  returns neither exactly when the rate stored for the pair is \<^verbatim>\<open>null\<close>. The conversion
  raises \<^verbatim>\<open>TypeError\<close> exactly when a rate is stored for the pair and is not a number, and
  \<^verbatim>\<open>OverflowError\<close> exactly when the stored rate is an integer that has no float; it raises
  nothing else, and whenever it returns, exactly one of value and error is present.
\<close>

theorem result_pair_shape:
  "\<not> (fst (fst (get_exchange_rate b t w)) \<noteq> JNull \<and> snd (fst (get_exchange_rate b t w)) \<noteq> None)
   \<and> (fst (get_exchange_rate b t w) = (JNull, None)
        \<longleftrightarrow> stored_rate (fst (read_from_file default_filename w)) b t = Some JNull)
   \<and> (fst (convert_currency a b t w) = Inl TypeError
        \<longleftrightarrow> (\<exists>v. stored_rate (fst (read_from_file default_filename w)) b t = Some v \<and> \<not> is_number v))
   \<and> (fst (convert_currency a b t w) = Inl OverflowError
        \<longleftrightarrow> (\<exists>n. stored_rate (fst (read_from_file default_filename w)) b t = Some (JInt n)
                \<and> \<not> in_float_range n))
   \<and> (case fst (convert_currency a b t w) of
         Inl x \<Rightarrow> x = TypeError \<or> x = OverflowError
       | Inr (v, e) \<Rightarrow> (v = JNull) \<noteq> (e = None))"
proof -
  define data where "data = fst (read_from_file default_filename w)"
  obtain v e where g: "fst (get_exchange_rate b t w) = (v, e)"
    by (cases "fst (get_exchange_rate b t w)")
  have shape: "(v = JNull \<and> e \<noteq> None) \<or> e = None"
  proof (cases "rate_of data b t")
    case (Inl x)
    then show ?thesis using g by (auto simp add: get_exchange_rate_result data_def)
  next
    case (Inr res)
    then have "rate_of data b t = Inr (v, e)" using g by (simp add: get_exchange_rate_result data_def)
    then show ?thesis by (rule rate_of_shape)
  qed
  have ok: "e = None \<longleftrightarrow> stored_rate data b t = Some v"
  proof (cases "rate_of data b t")
    case (Inl x)
    then have "e \<noteq> None" using g by (auto simp add: get_exchange_rate_result data_def)
    moreover have "stored_rate data b t \<noteq> Some v" using Inl rate_of_success [of data b t v] by simp
    ultimately show ?thesis by simp
  next
    case (Inr res)
    then have r: "rate_of data b t = Inr (v, e)" using g by (simp add: get_exchange_rate_result data_def)
    show ?thesis
    proof
      assume "e = None"
      then show "stored_rate data b t = Some v" using r rate_of_success [of data b t v] by simp
    next
      assume "stored_rate data b t = Some v"
      then have "rate_of data b t = Inr (v, None)" using rate_of_success [of data b t v] by simp
      then show "e = None" using r by simp
    qed
  qed
  have failed: "stored_rate data b t = None" if "e \<noteq> None"
  proof (cases "stored_rate data b t")
    case (Some u)
    then have "rate_of data b t = Inr (u, None)" using rate_of_success [of data b t u] by simp
    then have "fst (get_exchange_rate b t w) = (u, None)"
      by (simp add: get_exchange_rate_result data_def)
    then show ?thesis using g that by simp
  qed simp
  have c: "fst (convert_currency a b t w) =
      (if e \<noteq> None then Inr (JNull, e)
       else (case py_mul a v of Inl x \<Rightarrow> Inl x | Inr u \<Rightarrow> Inr (u, None)))"
    by (simp add: convert_currency_result g)
  have raises: "fst (convert_currency a b t w) = Inl x
      \<longleftrightarrow> (\<exists>u. stored_rate data b t = Some u \<and> py_mul a u = Inl x)" for x
  proof (cases "e = None")
    case True
    then have "stored_rate data b t = Some v" using ok by simp
    then show ?thesis using True by (auto simp: c split: sum.splits)
  next
    case False
    then show ?thesis using failed by (simp add: c)
  qed
  have 1: "\<not> (v \<noteq> JNull \<and> e \<noteq> None)" using shape by auto
  have 2: "(v, e) = (JNull, None) \<longleftrightarrow> stored_rate data b t = Some JNull"
    using ok shape by auto
  have 3: "fst (convert_currency a b t w) = Inl TypeError
      \<longleftrightarrow> (\<exists>u. stored_rate data b t = Some u \<and> \<not> is_number u)"
    by (simp add: raises py_mul_TypeError)
  have 4: "fst (convert_currency a b t w) = Inl OverflowError
      \<longleftrightarrow> (\<exists>n. stored_rate data b t = Some (JInt n) \<and> \<not> in_float_range n)"
    by (auto simp add: raises py_mul_OverflowError)
  have 5: "(case fst (convert_currency a b t w) of
         Inl x \<Rightarrow> x = TypeError \<or> x = OverflowError
       | Inr (v, e) \<Rightarrow> (v = JNull) \<noteq> (e = None))"
  proof (cases "e = None")
    case True
    show ?thesis
    proof (cases "py_mul a v")
      case (Inl x)
      then show ?thesis using True py_mul_raises [OF Inl] by (simp add: c)
    next
      case (Inr u)
      then show ?thesis using True py_mul_returns [OF Inr] by (simp add: c)
    qed
  next
    case False
    then show ?thesis using shape by (auto simp: c)
  qed
  show ?thesis using 1 2 3 4 5 by (simp add: g data_def)
qed

text \<open>C9, at the scenario of the specification, at the stored \<^verbatim>\<open>null\<close> and at a stored
  integer beyond the range of floats.\<close>

theorem result_pair_shape_witness:
  "fst (get_exchange_rate ''USD'' ''EUR'' world_cached) = (JFloat (Finite (9 / 10)), None)
   \<and> fst (get_exchange_rate ''USD'' ''EUR'' world_null_rate) = (JNull, None)
   \<and> fst (convert_currency (Finite 100) ''USD'' ''EUR'' world_null_rate) = Inl TypeError
   \<and> fst (convert_currency (Finite 2) ''USD'' ''EUR'' world_huge_rate) = Inl OverflowError
   \<and> fst (convert_currency (Finite 100) ''USD'' ''EUR'' world_cached) \<noteq> Inl TypeError
   \<and> fst (convert_currency (Finite 100) ''USD'' ''EUR'' world_cached) \<noteq> Inl OverflowError"
proof -
  have a: "stored_rate (fst (read_from_file default_filename world_null_rate)) ''USD'' ''EUR''
      = Some JNull"
    by (simp add: read_from_file_def world_null_rate_def world_cached_def)
  have b: "stored_rate (fst (read_from_file default_filename world_cached)) ''USD'' ''EUR''
      = Some (JFloat (Finite (9 / 10)))"
    by (simp add: read_from_file_def world_cached_def usd_entry_def)
  have c: "fst (get_exchange_rate ''USD'' ''EUR'' world_cached) = (JFloat (Finite (9 / 10)), None)"
    by (simp add: get_exchange_rate_result rate_of_def read_from_file_def world_cached_def
        usd_entry_def)
  have d: "stored_rate (fst (read_from_file default_filename world_huge_rate)) ''USD'' ''EUR''
      = Some (JInt (10 ^ 309))"
    by (simp add: read_from_file_def world_huge_rate_def world_cached_def)
  have e: "\<not> in_float_range (10 ^ 309)"
    by (simp add: in_float_range_def float_limit_def)
  show ?thesis
    using result_pair_shape [of "''USD''" "''EUR''" world_null_rate "Finite 100"]
      result_pair_shape [of "''USD''" "''EUR''" world_cached "Finite 100"]
      result_pair_shape [of "''USD''" "''EUR''" world_huge_rate "Finite 2"] a b c d e
    by simp
qed

text \<open>
  C10 (available currencies). \<^verbatim>\<open>get_available_currencies\<close> always returns a list: the keys
  of the rate table of the first base entry when the cache file parses to a non-empty
  mapping whose first entry has one, and the empty list in every other state of the cache
  (file missing, not parseable, an empty snapshot, a first entry without rate table).
\<close>

theorem get_available_currencies_total:
  "fst (get_available_currencies w) =
     (case files w default_filename of
        None \<Rightarrow> []
      | Some f \<Rightarrow>
          (case content f of
             Document (JObj ((b, e) # S)) \<Rightarrow>
               (case rate_table e of Some rs \<Rightarrow> map fst rs | None \<Rightarrow> [])
           | _ \<Rightarrow> []))"
proof -
  have a: "available_of (JObj ((b, e) # S)) =
      (case rate_table e of Some rs \<Rightarrow> Inr (map fst rs)
       | None \<Rightarrow> (case py_getitem e ''rates'' of Inl x \<Rightarrow> Inl x | Inr rates \<Rightarrow> py_keys rates))"
    for b e S
    by (cases e) (auto simp: available_of_def split: option.splits json.splits)
  have b: "(case (case py_getitem e ''rates'' of Inl x \<Rightarrow> Inl x | Inr rates \<Rightarrow> py_keys rates) of
        Inl x \<Rightarrow> [] | Inr ks \<Rightarrow> ks) = []" if "rate_table e = None" for e
    using that by (cases e) (auto split: option.splits json.splits)
  have c: "(case available_of d of Inl x \<Rightarrow> [] | Inr ks \<Rightarrow> ks) =
      (case d of JObj ((b, e) # S) \<Rightarrow> (case rate_table e of Some rs \<Rightarrow> map fst rs | None \<Rightarrow> [])
       | _ \<Rightarrow> [])" for d
  proof (cases d)
    case (JObj kvs)
    show ?thesis
    proof (cases kvs)
      case Nil
      then show ?thesis using JObj by (simp add: available_of_def)
    next
      case (Cons p S)
      obtain b e where p: "p = (b, e)" by (cases p)
      show ?thesis using JObj Cons p b [of e] by (cases "rate_table e") (simp_all add: a)
    qed
  qed (simp_all add: available_of_def)
  show ?thesis
    by (simp add: get_available_currencies_result c read_from_file_def
        split: option.splits file_text.splits)
qed

text \<open>C10, at the scenario of the specification, a missing file, an entry without
  \<^verbatim>\<open>'rates'\<close>, a corrupt file and an empty snapshot.\<close>

theorem get_available_currencies_total_witness:
  "fst (get_available_currencies world_cached) = [''USD'', ''EUR'', ''RUB'']
   \<and> fst (get_available_currencies world_empty) = []
   \<and> fst (get_available_currencies world_no_rates) = []
   \<and> fst (get_available_currencies (world_cached\<lparr>files := [default_filename \<mapsto>
         \<lparr>content = Corrupt, mtime = 0\<rparr>]\<rparr>)) = []
   \<and> fst (get_available_currencies (world_cached\<lparr>files := [default_filename \<mapsto>
         \<lparr>content = Document (JObj []), mtime = 0\<rparr>]\<rparr>)) = []"
  using get_available_currencies_total [of world_cached]
    get_available_currencies_total [of world_empty]
    get_available_currencies_total [of world_no_rates]
    get_available_currencies_total [of "world_cached\<lparr>files := [default_filename \<mapsto>
         \<lparr>content = Corrupt, mtime = 0\<rparr>]\<rparr>"]
    get_available_currencies_total [of "world_cached\<lparr>files := [default_filename \<mapsto>
         \<lparr>content = Document (JObj []), mtime = 0\<rparr>]\<rparr>"]
  by (simp add: world_cached_def world_empty_def world_no_rates_def usd_entry_def)

end
